theory Spec2Isabelle
  imports Complex_Main "HOL-Library.Word" "HOL-Library.Log_Nat"
begin

unbundle bit_operations_syntax

section \<open>Cursors\_FIX.py: constants\<close>

text \<open>
  The module polls the handle of the cursor on screen and, when the handle changes,
  replaces every system cursor by a copy of the static arrow and reloads the cursor
  scheme. Python integers are \<open>int\<close>; the values that cross the \<open>ctypes\<close> boundary
  have the width of their C type: \<open>DWORD\<close>, \<open>BOOL\<close> and the default \<open>c_int\<close> result
  are \<open>32 word\<close>, a \<open>HANDLE\<close> is a pointer-wide \<open>64 word\<close> (64-bit Windows).
  Every call into user32 is taken to return: what \<open>ctypes\<close> does to marshal the
  arguments is outside the model.
\<close>

definition SPI_SETCURSORS :: int where
  "SPI_SETCURSORS = 0x0057"

definition CURSOR_SHOWING :: "32 word" where
  "CURSOR_SHOWING = 0x00000001"

definition IDC_ARROW :: int where
  "IDC_ARROW = 32512"

definition ALL_OCR_IDS :: "int list" where
  "ALL_OCR_IDS =
     [32512, 32513, 32514, 32515, 32516, 32642, 32643, 32644, 32645, 32646,
      32648, 32649, 32650]"

section \<open>The boundary to user32\<close>

text \<open>
  A foreign function whose \<open>restype\<close> is \<open>HANDLE\<close> (\<open>c_void_p\<close>) gives Python \<open>None\<close>
  for the null pointer and the unsigned pointer value otherwise; the same holds for the
  \<open>value\<close> of a \<open>c_void_p\<close> object.
\<close>

definition c_void_p_value :: "64 word \<Rightarrow> int option" where
  "c_void_p_value p = (if p = 0 then None else Some (uint p))"

text \<open>Python's \<open>x or 0\<close> on an optional integer: \<open>x\<close> when it is truthy, \<open>0\<close> otherwise.\<close>

definition or_zero :: "int option \<Rightarrow> int" where
  "or_zero x = (case x of None \<Rightarrow> 0 | Some v \<Rightarrow> if v = 0 then 0 else v)"

text \<open>
  What \<open>GetCursorInfo\<close> answers at one call: its return value and the two fields of
  \<open>CURSORINFO\<close> that the program reads.
\<close>

record cursor_query =
  GetCursorInfo_ret :: "32 word"
  flags :: "32 word"
  hCursor :: "64 word"

text \<open>
  What user32 answers during one call of \<open>force_reload_cursors\<close>. \<open>CopyIcon\<close> and
  \<open>SetSystemCursor\<close> are called once per cursor role, so their answers are indexed by
  the role of the iteration in which the call is made.
\<close>

record user32_env =
  LoadCursorW_ret :: "64 word"
  CopyIcon_ret :: "int \<Rightarrow> 64 word"
  SetSystemCursor_ret :: "int \<Rightarrow> 32 word"
  SystemParametersInfoW_ret :: "32 word"

text \<open>The calls into user32 that \<open>force_reload_cursors\<close> makes, with their arguments.\<close>

datatype os_call =
  Call_LoadCursorW int int
  | Call_CopyIcon int
  | Call_SetSystemCursor int int
  | Call_SystemParametersInfoW int

section \<open>get\_cursor\_handle\<close>

definition get_cursor_handle :: "cursor_query \<Rightarrow> int option" where
  "get_cursor_handle ci =
     (if GetCursorInfo_ret ci = 0 then None
      else if flags ci AND CURSOR_SHOWING = 0 then None
      else Some (or_zero (c_void_p_value (hCursor ci))))"

section \<open>force\_reload\_cursors\<close>

text \<open>
  The body of \<open>for ocr_id in ALL_OCR_IDS\<close>, as a recursion over the roles still to do;
  it returns the calls made, in order. The result of \<open>SetSystemCursor\<close> is discarded
  by the source, so the model never reads \<open>SetSystemCursor_ret\<close>.
\<close>

fun install_all :: "user32_env \<Rightarrow> int \<Rightarrow> int list \<Rightarrow> os_call list" where
  "install_all os arrow [] = []"
| "install_all os arrow (ocr_id # rest) =
     (case c_void_p_value (CopyIcon_ret os ocr_id) of
        None \<Rightarrow> Call_CopyIcon arrow # install_all os arrow rest
      | Some copy \<Rightarrow>
          if copy = 0 then Call_CopyIcon arrow # install_all os arrow rest
          else Call_CopyIcon arrow # Call_SetSystemCursor copy ocr_id
                 # install_all os arrow rest)"

text \<open>
  The function returns its boolean together with the calls it made. The diagnostic
  \<open>print\<close>s of the two failure branches are not part of the model.
\<close>

definition force_reload_cursors :: "user32_env \<Rightarrow> bool \<times> os_call list" where
  "force_reload_cursors os =
     (case c_void_p_value (LoadCursorW_ret os) of
        None \<Rightarrow> (False, [Call_LoadCursorW 0 IDC_ARROW])
      | Some arrow \<Rightarrow>
          if arrow = 0 then (False, [Call_LoadCursorW 0 IDC_ARROW])
          else
            let calls = Call_LoadCursorW 0 IDC_ARROW # install_all os arrow ALL_OCR_IDS
                          @ [Call_SystemParametersInfoW SPI_SETCURSORS]
            in if SystemParametersInfoW_ret os = 0 then (False, calls)
               else (True, calls))"

section \<open>Python floats\<close>

text \<open>
  A finite Python \<open>float\<close> is a binary64 number and is modelled by the real number it
  denotes. Comparing two floats compares these reals. A float literal and the sum of two
  floats are the exact value rounded to the nearest number with a significand of 53 bits,
  ties to the even significand; \<open>round_double\<close> is that rounding. The exponent range of
  binary64 is not modelled. For the one sum of the program, \<open>now + cooldown_sec\<close> with
  \<open>now\<close> a finite float, this loses nothing: the sum is far below the overflow
  threshold, and it is zero or of magnitude at least \<open>2 powi (-57)\<close>, hence never
  subnormal.
\<close>

text \<open>The integer part of the binary logarithm of a positive real.\<close>

definition ilog2 :: "real \<Rightarrow> int" where
  "ilog2 x = (if 1 \<le> x then bitlen \<lfloor>x\<rfloor> - 1 else - bitlen (\<lceil>1 / x\<rceil> - 1))"

definition round_half_even :: "real \<Rightarrow> int" where
  "round_half_even x =
     (let f = \<lfloor>x\<rfloor>; r = x - of_int f
      in if r < 1 / 2 then f else if 1 / 2 < r then f + 1 else if even f then f else f + 1)"

definition round_double :: "real \<Rightarrow> real" where
  "round_double x =
     (if x = 0 then 0
      else let u = 2 powi (ilog2 \<bar>x\<bar> - 52) in of_int (round_half_even (x / u)) * u)"

text \<open>Python's \<open>x + y\<close> on floats.\<close>

definition float_add :: "real \<Rightarrow> real \<Rightarrow> real" where
  "float_add x y = round_double (x + y)"

section \<open>main\<close>

text \<open>
  The two local variables of \<open>main\<close> that live across iterations. The value of
  \<open>time.monotonic()\<close> and the deadline are floats: \<open>now >= cooldown_until\<close> is the
  comparison of the reals they denote, \<open>now + cooldown_sec\<close> is \<open>float_add\<close>, and the
  literals \<open>0.02\<close> and \<open>0.10\<close> are the floats nearest to these decimals.
\<close>

record loop_state =
  last_h :: "int option"
  cooldown_until :: real

definition poll_interval_sec :: real where
  "poll_interval_sec = round_double 0.02"

definition cooldown_sec :: real where
  "cooldown_sec = round_double 0.10"

definition main_init :: loop_state where
  "main_init = \<lparr>last_h = None, cooldown_until = 0.0\<rparr>"

text \<open>
  What one iteration of \<open>while True\<close> reads from outside: the clock after the sleep,
  the answer of \<open>GetCursorInfo\<close>, and the answers user32 would give to a reload.
\<close>

record tick_input =
  now :: real
  cursor :: cursor_query
  user32 :: user32_env

text \<open>
  Which path one iteration took: the first \<open>continue\<close> (\<open>Skipped\<close>), the second
  (\<open>Initial\<close>), the reload branch with the result and the calls of
  \<open>force_reload_cursors\<close> (\<open>Reloaded\<close>), the cooldown branch (\<open>Cooling\<close>), or no
  change of handle (\<open>Unchanged\<close>).
\<close>

datatype tick_path =
  Skipped
  | Initial int
  | Reloaded bool "os_call list"
  | Cooling
  | Unchanged

fun is_Reloaded :: "tick_path \<Rightarrow> bool" where
  "is_Reloaded (Reloaded ok calls) = True"
| "is_Reloaded p = False"

text \<open>One iteration of the loop body, from the state before it to the state after it.\<close>

definition tick :: "loop_state \<Rightarrow> tick_input \<Rightarrow> loop_state \<times> tick_path" where
  "tick s t =
     (case get_cursor_handle (cursor t) of
        None \<Rightarrow> (s, Skipped)
      | Some h \<Rightarrow>
          if h = 0 then (s, Skipped)
          else
            (case last_h s of
               None \<Rightarrow> (s\<lparr>last_h := Some h\<rparr>, Initial h)
             | Some l \<Rightarrow>
                 if h \<noteq> l then
                   (if now t \<ge> cooldown_until s then
                      (case force_reload_cursors (user32 t) of
                         (ok, calls) \<Rightarrow>
                           (s\<lparr>cooldown_until := float_add (now t) cooldown_sec,
                              last_h := Some h\<rparr>,
                            Reloaded ok calls))
                    else (s\<lparr>last_h := Some h\<rparr>, Cooling))
                 else (s\<lparr>last_h := Some h\<rparr>, Unchanged)))"

text \<open>
  The loop never ends, so a run is observed through its first iterations: \<open>main_loop\<close>
  executes one iteration per input and returns the state reached and the path of each
  iteration.
\<close>

fun main_loop :: "loop_state \<Rightarrow> tick_input list \<Rightarrow> loop_state \<times> tick_path list" where
  "main_loop s [] = (s, [])"
| "main_loop s (t # ts) =
     (case tick s t of
        (s', p) \<Rightarrow> (case main_loop s' ts of (s'', ps) \<Rightarrow> (s'', p # ps)))"

section \<open>Observations on traces and samples\<close>

text \<open>Python's truth value of a sample: \<open>None\<close> and \<open>0\<close> are false.\<close>

definition truthy :: "int option \<Rightarrow> bool" where
  "truthy x = (case x of None \<Rightarrow> False | Some v \<Rightarrow> v \<noteq> 0)"

text \<open>The handles passed to \<open>CopyIcon\<close>, in call order.\<close>

fun copied_from :: "os_call list \<Rightarrow> int list" where
  "copied_from [] = []"
| "copied_from (Call_CopyIcon a # cs) = a # copied_from cs"
| "copied_from (c # cs) = copied_from cs"

text \<open>The roles passed to \<open>SetSystemCursor\<close>, in call order.\<close>

fun installed_roles :: "os_call list \<Rightarrow> int list" where
  "installed_roles [] = []"
| "installed_roles (Call_SetSystemCursor c r # cs) = r # installed_roles cs"
| "installed_roles (c # cs) = installed_roles cs"

section \<open>Example inputs\<close>

definition showing :: "64 word \<Rightarrow> cursor_query" where
  "showing h = \<lparr>GetCursorInfo_ret = 1, flags = CURSOR_SHOWING, hCursor = h\<rparr>"

definition hidden :: "64 word \<Rightarrow> cursor_query" where
  "hidden h = \<lparr>GetCursorInfo_ret = 1, flags = 0, hCursor = h\<rparr>"

text \<open>
  A user32 that finds the arrow and reloads the scheme, but cannot copy the arrow for
  role 32514 and reports failure when installing role 32513.
\<close>

definition user32_partial :: user32_env where
  "user32_partial =
     \<lparr>LoadCursorW_ret = 0x10003,
      CopyIcon_ret = (\<lambda>r. if r = 32514 then 0 else 0x20001),
      SetSystemCursor_ret = (\<lambda>r. if r = 32513 then 0 else 1),
      SystemParametersInfoW_ret = 1\<rparr>"

definition user32_no_reload :: user32_env where
  "user32_no_reload = user32_partial\<lparr>SystemParametersInfoW_ret := 0\<rparr>"

definition user32_no_arrow :: user32_env where
  "user32_no_arrow = user32_partial\<lparr>LoadCursorW_ret := 0\<rparr>"

definition sample_at :: "real \<Rightarrow> cursor_query \<Rightarrow> user32_env \<Rightarrow> tick_input" where
  "sample_at tm q os = \<lparr>now = tm, cursor = q, user32 = os\<rparr>"

definition tracking :: "int \<Rightarrow> real \<Rightarrow> loop_state" where
  "tracking h d = \<lparr>last_h = Some h, cooldown_until = d\<rparr>"

section \<open>Basic facts\<close>

text \<open>
  \<open>ilog2\<close> is the exponent of the binade of its argument, so \<open>round_double\<close> rounds
  to a multiple of the unit in the last place of a 53-bit significand, and the result is
  within half that unit of the exact value.
\<close>

lemma round_half_even_error: "\<bar>of_int (round_half_even y) - y\<bar> \<le> 1 / 2"
proof -
  have "of_int \<lfloor>y\<rfloor> \<le> y" "y < of_int \<lfloor>y\<rfloor> + 1"
    by linarith+
  then show ?thesis
    by (auto simp: round_half_even_def Let_def)
qed

lemma ilog2_lower: "2 powi ilog2 x \<le> x" if "0 < x"
proof (cases "1 \<le> x")
  case True
  then have pos: "0 < \<lfloor>x\<rfloor>" by linarith
  then have k: "0 \<le> bitlen \<lfloor>x\<rfloor> - 1"
    using bitlen_bounds [OF pos] by (auto simp: bitlen_alt_def)
  have "(2::int) ^ nat (bitlen \<lfloor>x\<rfloor> - 1) \<le> \<lfloor>x\<rfloor>"
    using bitlen_bounds [OF pos] by simp
  then have "(2::real) ^ nat (bitlen \<lfloor>x\<rfloor> - 1) \<le> of_int \<lfloor>x\<rfloor>"
    by (metis of_int_le_iff of_int_numeral of_int_power)
  also have "\<dots> \<le> x" by linarith
  finally have "(2::real) ^ nat (bitlen \<lfloor>x\<rfloor> - 1) \<le> x" .
  moreover have "(2::real) powi (bitlen \<lfloor>x\<rfloor> - 1) = 2 ^ nat (bitlen \<lfloor>x\<rfloor> - 1)"
    using k by (simp add: power_int_def)
  ultimately show ?thesis using True by (simp add: ilog2_def)
next
  case False
  let ?m = "\<lceil>1 / x\<rceil> - 1"
  from False that have "1 < 1 / x" by simp
  then have pos: "0 < ?m" by linarith
  have k: "0 \<le> bitlen ?m" by (rule bitlen_nonneg)
  have "?m < 2 ^ nat (bitlen ?m)"
    using bitlen_bounds [OF pos] by simp
  then have "\<lceil>1 / x\<rceil> \<le> 2 ^ nat (bitlen ?m)" by simp
  then have "of_int \<lceil>1 / x\<rceil> \<le> (2::real) ^ nat (bitlen ?m)"
    by (metis of_int_le_iff of_int_numeral of_int_power)
  moreover have "1 / x \<le> of_int \<lceil>1 / x\<rceil>" by linarith
  ultimately have "1 / x \<le> (2::real) ^ nat (bitlen ?m)" by linarith
  then have "1 / 2 ^ nat (bitlen ?m) \<le> x"
    using that by (simp add: field_simps)
  moreover have "(2::real) powi (- bitlen ?m) = 1 / 2 ^ nat (bitlen ?m)"
    using k by (simp add: power_int_def field_simps)
  ultimately show ?thesis using False by (simp add: ilog2_def)
qed

lemma ilog2_upper: "x < 2 powi (ilog2 x + 1)" if "0 < x"
proof (cases "1 \<le> x")
  case True
  then have pos: "0 < \<lfloor>x\<rfloor>" by linarith
  have k: "0 \<le> bitlen \<lfloor>x\<rfloor>" by (rule bitlen_nonneg)
  have "\<lfloor>x\<rfloor> + 1 \<le> 2 ^ nat (bitlen \<lfloor>x\<rfloor>)"
    using bitlen_bounds [OF pos] by simp
  then have "of_int (\<lfloor>x\<rfloor> + 1) \<le> (2::real) ^ nat (bitlen \<lfloor>x\<rfloor>)"
    by (metis of_int_le_iff of_int_numeral of_int_power)
  moreover have "x < of_int (\<lfloor>x\<rfloor> + 1)" by linarith
  ultimately have "x < (2::real) ^ nat (bitlen \<lfloor>x\<rfloor>)" by linarith
  moreover have "(2::real) powi (bitlen \<lfloor>x\<rfloor> - 1 + 1) = 2 ^ nat (bitlen \<lfloor>x\<rfloor>)"
    using k by (simp add: power_int_def)
  ultimately show ?thesis using True by (simp add: ilog2_def)
next
  case False
  let ?m = "\<lceil>1 / x\<rceil> - 1"
  from False that have "1 < 1 / x" by simp
  then have pos: "0 < ?m" by linarith
  then have k: "0 \<le> bitlen ?m - 1"
    using bitlen_bounds [OF pos] by (auto simp: bitlen_alt_def)
  have "(2::int) ^ nat (bitlen ?m - 1) \<le> ?m"
    using bitlen_bounds [OF pos] by simp
  then have "(2::real) ^ nat (bitlen ?m - 1) \<le> of_int ?m"
    by (metis of_int_le_iff of_int_numeral of_int_power)
  moreover have "of_int ?m < 1 / x" by linarith
  ultimately have "(2::real) ^ nat (bitlen ?m - 1) < 1 / x" by linarith
  then have "x < 1 / 2 ^ nat (bitlen ?m - 1)"
    using that by (simp add: field_simps)
  moreover have "(2::real) powi (- bitlen ?m + 1) = 1 / 2 ^ nat (bitlen ?m - 1)"
  proof -
    have "(2::real) powi (- bitlen ?m + 1) = 2 powi (- (bitlen ?m - 1))" by simp
    also have "\<dots> = 1 / 2 powi (bitlen ?m - 1)" by (simp only: power_int_minus_divide)
    also have "\<dots> = 1 / 2 ^ nat (bitlen ?m - 1)" using k by (simp add: power_int_def)
    finally show ?thesis .
  qed
  ultimately show ?thesis using False by (simp add: ilog2_def)
qed

lemma round_double_error: "\<bar>round_double x - x\<bar> \<le> \<bar>x\<bar> / 2 ^ 53"
proof (cases "x = 0")
  case True
  then show ?thesis by (simp add: round_double_def)
next
  case False
  define u :: real where "u = 2 powi (ilog2 \<bar>x\<bar> - 52)"
  have u_pos: "0 < u" by (simp add: u_def)
  have r: "round_double x = of_int (round_half_even (x / u)) * u"
    using False by (simp add: round_double_def u_def Let_def)
  have "round_double x - x = (of_int (round_half_even (x / u)) - x / u) * u"
    using u_pos by (simp add: r left_diff_distrib)
  then have "\<bar>round_double x - x\<bar> = \<bar>of_int (round_half_even (x / u)) - x / u\<bar> * u"
    using u_pos by (simp add: abs_mult)
  also have "\<dots> \<le> 1 / 2 * u"
    using round_half_even_error [of "x / u"] u_pos by (intro mult_right_mono) simp_all
  also have "\<dots> = 2 powi ilog2 \<bar>x\<bar> / 2 ^ 53"
    by (simp add: u_def power_int_diff)
  also have "\<dots> \<le> \<bar>x\<bar> / 2 ^ 53"
    using ilog2_lower [of "\<bar>x\<bar>"] False by (simp add: divide_right_mono)
  finally show ?thesis .
qed

lemmas float_eval = float_add_def round_double_def ilog2_def round_half_even_def
  compute_bitlen Let_def

lemma cooldown_sec_value: "cooldown_sec = 3602879701896397 / 2 ^ 55"
  by (simp add: cooldown_sec_def float_eval)

lemma float_add_cooldown_error:
  "\<bar>float_add x cooldown_sec - (x + 1 / 10)\<bar> \<le> (\<bar>x\<bar> + 1 / 5) / 2 ^ 53"
proof -
  have "\<bar>float_add x cooldown_sec - (x + cooldown_sec)\<bar> \<le> \<bar>x + cooldown_sec\<bar> / 2 ^ 53"
    unfolding float_add_def by (rule round_double_error)
  also have "\<dots> \<le> (\<bar>x\<bar> + cooldown_sec) / 2 ^ 53"
    by (simp add: cooldown_sec_value divide_right_mono)
  finally have sum: "\<bar>float_add x cooldown_sec - (x + cooldown_sec)\<bar>
      \<le> \<bar>x\<bar> / 2 ^ 53 + cooldown_sec / 2 ^ 53"
    by (simp add: add_divide_distrib)
  have const: "cooldown_sec / 2 ^ 53 + \<bar>cooldown_sec - 1 / 10\<bar> \<le> (1 / 5) / 2 ^ 53"
    by (simp add: cooldown_sec_value)
  have "\<bar>float_add x cooldown_sec - (x + 1 / 10)\<bar>
      \<le> \<bar>float_add x cooldown_sec - (x + cooldown_sec)\<bar> + \<bar>cooldown_sec - 1 / 10\<bar>"
    by linarith
  also have "\<dots> \<le> \<bar>x\<bar> / 2 ^ 53 + (1 / 5) / 2 ^ 53"
    using sum const by linarith
  finally show ?thesis
    by (simp add: add_divide_distrib)
qed

lemmas sample_defs = get_cursor_handle_def showing_def hidden_def CURSOR_SHOWING_def
  c_void_p_value_def or_zero_def

lemma get_cursor_handle_showing:
  "get_cursor_handle (showing p) = Some (uint p)"
  by (simp add: sample_defs)

lemma get_cursor_handle_hidden: "get_cursor_handle (hidden p) = None"
  by (simp add: sample_defs)

lemma tick_Skipped:
  "\<not> truthy (get_cursor_handle (cursor t)) \<Longrightarrow> tick s t = (s, Skipped)"
  by (simp add: tick_def truthy_def split: option.splits)

lemma tick_Initial:
  "get_cursor_handle (cursor t) = Some h \<Longrightarrow> h \<noteq> 0 \<Longrightarrow> last_h s = None
   \<Longrightarrow> tick s t = (s\<lparr>last_h := Some h\<rparr>, Initial h)"
  by (simp add: tick_def)

lemma tick_Unchanged:
  "get_cursor_handle (cursor t) = Some h \<Longrightarrow> h \<noteq> 0 \<Longrightarrow> last_h s = Some h
   \<Longrightarrow> tick s t = (s\<lparr>last_h := Some h\<rparr>, Unchanged)"
  by (simp add: tick_def)

lemma tick_Cooling:
  "get_cursor_handle (cursor t) = Some h \<Longrightarrow> h \<noteq> 0 \<Longrightarrow> last_h s = Some l \<Longrightarrow> h \<noteq> l
   \<Longrightarrow> now t < cooldown_until s
   \<Longrightarrow> tick s t = (s\<lparr>last_h := Some h\<rparr>, Cooling)"
  by (simp add: tick_def)

lemma tick_Reloaded:
  "get_cursor_handle (cursor t) = Some h \<Longrightarrow> h \<noteq> 0 \<Longrightarrow> last_h s = Some l \<Longrightarrow> h \<noteq> l
   \<Longrightarrow> cooldown_until s \<le> now t
   \<Longrightarrow> tick s t =
         (s\<lparr>cooldown_until := float_add (now t) cooldown_sec, last_h := Some h\<rparr>,
          Reloaded (fst (force_reload_cursors (user32 t)))
            (snd (force_reload_cursors (user32 t))))"
  by (simp add: tick_def split: prod.splits)


lemma tick_deadline_Reloaded:
  "is_Reloaded (snd (tick s t))
   \<Longrightarrow> cooldown_until (fst (tick s t)) = float_add (now t) cooldown_sec"
  by (auto simp: tick_def split: option.splits prod.splits if_splits)

lemma tick_deadline_kept:
  "\<not> is_Reloaded (snd (tick s t)) \<Longrightarrow> cooldown_until (fst (tick s t)) = cooldown_until s"
  by (auto simp: tick_def split: option.splits prod.splits if_splits)


lemma tick_last_h_kept:
  "last_h s \<noteq> None \<Longrightarrow> last_h (fst (tick s t)) \<noteq> None"
  by (auto simp: tick_def split: option.splits prod.splits if_splits)

lemma tick_last_h_nonzero:
  "last_h s \<noteq> Some 0 \<Longrightarrow> last_h (fst (tick s t)) \<noteq> Some 0"
  by (auto simp: tick_def split: option.splits prod.splits if_splits)

lemma main_loop_Cons:
  "main_loop s (t # ts) =
     (fst (main_loop (fst (tick s t)) ts), snd (tick s t) # snd (main_loop (fst (tick s t)) ts))"
  by (simp split: prod.splits)

lemma main_loop_append:
  "main_loop s (xs @ ys) =
     (fst (main_loop (fst (main_loop s xs)) ys),
      snd (main_loop s xs) @ snd (main_loop (fst (main_loop s xs)) ys))"
  by (induction xs arbitrary: s) (simp_all add: main_loop_Cons del: main_loop.simps(2))

lemma main_loop_skips:
  "\<forall>u\<in>set ts. \<not> truthy (get_cursor_handle (cursor u))
   \<Longrightarrow> main_loop s ts = (s, replicate (length ts) Skipped)"
  by (induction ts arbitrary: s) (simp_all add: tick_Skipped)


lemma main_loop_deadline_kept:
  "filter is_Reloaded (snd (main_loop s ts)) = []
   \<Longrightarrow> cooldown_until (fst (main_loop s ts)) = cooldown_until s"
proof (induction ts arbitrary: s)
  case Nil
  show ?case by simp
next
  case (Cons t ts)
  from Cons.prems have quiet: "\<not> is_Reloaded (snd (tick s t))"
    and rest: "filter is_Reloaded (snd (main_loop (fst (tick s t)) ts)) = []"
    by (simp_all add: main_loop_Cons del: main_loop.simps(2) split: if_splits)
  from Cons.IH [OF rest] tick_deadline_kept [OF quiet] show ?case
    by (simp add: main_loop_Cons del: main_loop.simps(2))
qed

lemma main_loop_last_h_kept:
  "last_h s \<noteq> None \<Longrightarrow> last_h (fst (main_loop s ts)) \<noteq> None"
proof (induction ts arbitrary: s)
  case Nil
  then show ?case by simp
next
  case (Cons t ts)
  from Cons.IH [OF tick_last_h_kept [OF Cons.prems]] show ?case
    by (simp add: main_loop_Cons del: main_loop.simps(2))
qed

lemma main_loop_last_h_nonzero:
  "last_h s \<noteq> Some 0 \<Longrightarrow> last_h (fst (main_loop s ts)) \<noteq> Some 0"
proof (induction ts arbitrary: s)
  case Nil
  then show ?case by simp
next
  case (Cons t ts)
  from Cons.IH [OF tick_last_h_nonzero [OF Cons.prems]] show ?case
    by (simp add: main_loop_Cons del: main_loop.simps(2))
qed

lemma copied_from_install_all:
  "copied_from (install_all os a ids) = replicate (length ids) a"
  by (induction ids) (simp_all add: c_void_p_value_def)

lemma installed_roles_install_all:
  "installed_roles (install_all os a ids) = filter (\<lambda>r. CopyIcon_ret os r \<noteq> 0) ids"
  by (induction ids) (simp_all add: c_void_p_value_def uint_0_iff)

lemma copied_from_append: "copied_from (xs @ ys) = copied_from xs @ copied_from ys"
  by (induction xs rule: copied_from.induct) simp_all

lemma installed_roles_append:
  "installed_roles (xs @ ys) = installed_roles xs @ installed_roles ys"
  by (induction xs rule: installed_roles.induct) simp_all

lemma install_all_ignores_SetSystemCursor_ret:
  "install_all (os\<lparr>SetSystemCursor_ret := f\<rparr>) a ids = install_all os a ids"
  by (induction ids) (simp_all split: option.splits)

lemmas input_defs = sample_at_def tracking_def main_init_def
  user32_partial_def user32_no_reload_def user32_no_arrow_def

section \<open>The reload action\<close>

text \<open>
  Claim C5: \<open>force_reload_cursors\<close> returns \<open>False\<close> if and only if the handle of the
  default arrow cannot be obtained (\<open>LoadCursorW\<close> answers the null handle) or the
  reload of the cursor scheme fails (\<open>SystemParametersInfoW\<close> answers 0); in every
  other case it returns \<open>True\<close>.
\<close>
theorem force_reload_cursors_False_iff:
  "fst (force_reload_cursors os) = False \<longleftrightarrow>
     (c_void_p_value (LoadCursorW_ret os) = None \<or> SystemParametersInfoW_ret os = 0)"
  by (simp add: force_reload_cursors_def c_void_p_value_def uint_0_iff Let_def)

theorem force_reload_cursors_False_iff_witness:
  "fst (force_reload_cursors user32_no_arrow) = False
   \<and> fst (force_reload_cursors user32_no_reload) = False
   \<and> fst (force_reload_cursors user32_partial) \<noteq> False"
  using force_reload_cursors_False_iff [of user32_no_arrow]
    force_reload_cursors_False_iff [of user32_no_reload]
    force_reload_cursors_False_iff [of user32_partial]
  by (simp add: input_defs c_void_p_value_def)

text \<open>
  Claim C4: once the arrow handle is obtained, \<open>force_reload_cursors\<close> goes through all
  13 roles without stopping early. \<open>CopyIcon\<close> is called 13 times, once per role,
  whatever the earlier copies and installs answered; \<open>SetSystemCursor\<close> is called for
  exactly the roles whose copy succeeded, in the order of \<open>ALL_OCR_IDS\<close>; the last call
  is the reload of the scheme; the result is \<open>True\<close> exactly when that reload succeeds;
  and what \<open>SetSystemCursor\<close> answers changes neither the calls nor the result.
\<close>
theorem force_reload_cursors_best_effort:
  assumes "c_void_p_value (LoadCursorW_ret os) = Some arrow"
  shows "length ALL_OCR_IDS = 13
    \<and> copied_from (snd (force_reload_cursors os)) = replicate 13 arrow
    \<and> installed_roles (snd (force_reload_cursors os))
        = filter (\<lambda>r. CopyIcon_ret os r \<noteq> 0) ALL_OCR_IDS
    \<and> last (snd (force_reload_cursors os)) = Call_SystemParametersInfoW SPI_SETCURSORS
    \<and> fst (force_reload_cursors os) = (SystemParametersInfoW_ret os \<noteq> 0)
    \<and> force_reload_cursors (os\<lparr>SetSystemCursor_ret := f\<rparr>) = force_reload_cursors os"
proof -
  have len: "length ALL_OCR_IDS = 13"
    by (simp add: ALL_OCR_IDS_def)
  have nz: "arrow \<noteq> 0"
    using assms by (auto simp: c_void_p_value_def uint_0_iff split: if_splits)
  have calls: "snd (force_reload_cursors os) =
      Call_LoadCursorW 0 IDC_ARROW # install_all os arrow ALL_OCR_IDS
        @ [Call_SystemParametersInfoW SPI_SETCURSORS]"
    using assms nz by (simp add: force_reload_cursors_def Let_def)
  have res: "fst (force_reload_cursors os) = (SystemParametersInfoW_ret os \<noteq> 0)"
    using assms nz by (simp add: force_reload_cursors_def Let_def)
  have copies: "copied_from (snd (force_reload_cursors os)) = replicate 13 arrow"
    by (simp add: calls copied_from_append copied_from_install_all len)
  have roles: "installed_roles (snd (force_reload_cursors os))
        = filter (\<lambda>r. CopyIcon_ret os r \<noteq> 0) ALL_OCR_IDS"
    by (simp add: calls installed_roles_append installed_roles_install_all)
  have final: "last (snd (force_reload_cursors os)) = Call_SystemParametersInfoW SPI_SETCURSORS"
    by (simp add: calls)
  have frame: "force_reload_cursors (os\<lparr>SetSystemCursor_ret := f\<rparr>) = force_reload_cursors os"
    by (simp add: force_reload_cursors_def install_all_ignores_SetSystemCursor_ret Let_def
        split: option.splits)
  from len copies roles final res frame show ?thesis by simp
qed

theorem force_reload_cursors_best_effort_witness:
  "c_void_p_value (LoadCursorW_ret user32_partial) = Some 65539
   \<and> CopyIcon_ret user32_partial 32514 = 0
   \<and> SetSystemCursor_ret user32_partial 32513 = 0
   \<and> copied_from (snd (force_reload_cursors user32_partial)) = replicate 13 65539
   \<and> installed_roles (snd (force_reload_cursors user32_partial))
       = [32512, 32513, 32515, 32516, 32642, 32643, 32644, 32645, 32646, 32648, 32649, 32650]
   \<and> last (snd (force_reload_cursors user32_partial)) = Call_SystemParametersInfoW 87
   \<and> fst (force_reload_cursors user32_partial) = True"
proof -
  have arrow: "c_void_p_value (LoadCursorW_ret user32_partial) = Some 65539"
    by (simp add: user32_partial_def c_void_p_value_def)
  from force_reload_cursors_best_effort [OF arrow] arrow show ?thesis
    by (simp add: user32_partial_def ALL_OCR_IDS_def SPI_SETCURSORS_def)
qed

section \<open>The polling loop\<close>




text \<open>
  Claim C2: in every iteration that calls \<open>force_reload_cursors\<close>, the loop afterwards
  sets \<open>cooldown_until\<close> to the iteration's clock value plus \<open>cooldown_sec\<close> (100 ms),
  whether the call returned \<open>True\<close> or \<open>False\<close>. The sum is the float sum that
  \<open>now + cooldown_sec\<close> computes, \<open>cooldown_sec\<close> is the float nearest to \<open>0.10\<close>, and
  the stored deadline differs from the exact \<open>now + 1 / 10\<close> by the rounding error only.
\<close>
theorem reload_sets_deadline:
  assumes "snd (tick s t) = Reloaded ok calls"
  shows "cooldown_until (fst (tick s t)) = float_add (now t) cooldown_sec
    \<and> cooldown_sec = round_double (1 / 10)
    \<and> cooldown_sec = 3602879701896397 / 2 ^ 55
    \<and> \<bar>cooldown_until (fst (tick s t)) - (now t + 1 / 10)\<bar> \<le> (\<bar>now t\<bar> + 1 / 5) / 2 ^ 53
    \<and> ok = fst (force_reload_cursors (user32 t))"
proof -
  have inv: "is_Reloaded (snd (tick s t))"
    using assms by simp
  have deadline: "cooldown_until (fst (tick s t)) = float_add (now t) cooldown_sec"
    by (rule tick_deadline_Reloaded [OF inv])
  have lit: "cooldown_sec = round_double (1 / 10)"
    by (simp add: cooldown_sec_def)
  have close: "\<bar>cooldown_until (fst (tick s t)) - (now t + 1 / 10)\<bar>
      \<le> (\<bar>now t\<bar> + 1 / 5) / 2 ^ 53"
    unfolding deadline by (rule float_add_cooldown_error)
  have res: "ok = fst (force_reload_cursors (user32 t))"
    using assms by (auto simp: tick_def split: option.splits prod.splits if_splits)
  from deadline lit cooldown_sec_value close res show ?thesis
    by blast
qed

theorem reload_sets_deadline_witness:
  "round_double 0.7 = 3152519739159347 / 4503599627370496
   \<and> snd (tick (tracking 10 0) (sample_at (round_double 0.7) (showing 99) user32_no_reload))
     = Reloaded False (snd (force_reload_cursors user32_no_reload))
   \<and> cooldown_until
       (fst (tick (tracking 10 0) (sample_at (round_double 0.7) (showing 99) user32_no_reload)))
     = 7205759403792793 / 9007199254740992
   \<and> snd (tick (tracking 10 0) (sample_at (round_double 0.7) (showing 99) user32_partial))
     = Reloaded True (snd (force_reload_cursors user32_partial))
   \<and> cooldown_until
       (fst (tick (tracking 10 0) (sample_at (round_double 0.7) (showing 99) user32_partial)))
     = 7205759403792793 / 9007199254740992"
proof -
  let ?a = "3152519739159347 / 4503599627370496 :: real"
  let ?b = "7205759403792793 / 9007199254740992 :: real"
  have a: "round_double 0.7 = ?a"
    by (simp add: float_eval)
  have d: "float_add ?a cooldown_sec = ?b"
    by (simp add: float_eval cooldown_sec_value)
  have f: "fst (force_reload_cursors user32_no_reload) = False"
    by (simp add: force_reload_cursors_def input_defs c_void_p_value_def)
  have p: "fst (force_reload_cursors user32_partial) = True"
    by (simp add: force_reload_cursors_def input_defs c_void_p_value_def)
  have x: "snd (tick (tracking 10 0) (sample_at ?a (showing 99) user32_no_reload))
     = Reloaded False (snd (force_reload_cursors user32_no_reload))"
    using f by (auto simp: tick_def get_cursor_handle_showing sample_at_def tracking_def
        split: prod.splits)
  have y: "snd (tick (tracking 10 0) (sample_at ?a (showing 99) user32_partial))
     = Reloaded True (snd (force_reload_cursors user32_partial))"
    using p by (auto simp: tick_def get_cursor_handle_showing sample_at_def tracking_def
        split: prod.splits)
  have nx: "now (sample_at ?a (showing 99) user32_no_reload) = ?a"
    and ny: "now (sample_at ?a (showing 99) user32_partial) = ?a"
    by (simp_all add: sample_at_def)
  have dx: "cooldown_until (fst (tick (tracking 10 0)
        (sample_at ?a (showing 99) user32_no_reload))) = ?b"
    using reload_sets_deadline [OF x] unfolding nx d by blast
  have dy: "cooldown_until (fst (tick (tracking 10 0)
        (sample_at ?a (showing 99) user32_partial))) = ?b"
    using reload_sets_deadline [OF y] unfolding ny d by blast
  show ?thesis
    unfolding a using x dx y dy by blast
qed

text \<open>
  Claim C3, amended: in a run that starts with \<open>last_h = None\<close>, the first iteration
  whose sample is neither \<open>None\<close> nor 0 records that sample as \<open>last_h\<close> and calls no
  reload, whatever the value of the sample; the iterations before it, whose samples are
  \<open>None\<close> or 0, are skipped and leave the state as it was.
\<close>

theorem first_valid_sample_initialises:
  assumes "last_h s = None"
    and "\<forall>u\<in>set pre. \<not> truthy (get_cursor_handle (cursor u))"
    and "get_cursor_handle (cursor t) = Some h"
    and "h \<noteq> 0"
  shows "main_loop s (pre @ [t])
           = (s\<lparr>last_h := Some h\<rparr>, replicate (length pre) Skipped @ [Initial h])"
proof -
  have skip: "main_loop s pre = (s, replicate (length pre) Skipped)"
    by (rule main_loop_skips [OF assms(2)])
  have init: "tick s t = (s\<lparr>last_h := Some h\<rparr>, Initial h)"
    by (rule tick_Initial [OF assms(3) assms(4) assms(1)])
  show ?thesis
    by (simp add: main_loop_append skip init)
qed

theorem first_valid_sample_initialises_witness:
  "last_h main_init = None
   \<and> \<not> truthy (get_cursor_handle (cursor (sample_at 0.02 (hidden 10) user32_partial)))
   \<and> \<not> truthy (get_cursor_handle (cursor (sample_at 0.04 (showing 0) user32_partial)))
   \<and> get_cursor_handle (cursor (sample_at 0.06 (showing 10) user32_partial)) = Some 10
   \<and> main_loop main_init
        ([sample_at 0.02 (hidden 10) user32_partial, sample_at 0.04 (showing 0) user32_partial]
          @ [sample_at 0.06 (showing 10) user32_partial])
       = (main_init\<lparr>last_h := Some 10\<rparr>, [Skipped, Skipped, Initial 10])"
proof -
  let ?p1 = "sample_at 0.02 (hidden 10) user32_partial"
  let ?p2 = "sample_at 0.04 (showing 0) user32_partial"
  let ?t = "sample_at 0.06 (showing 10) user32_partial"
  have s: "last_h main_init = None"
    by (simp add: main_init_def)
  have p1: "\<not> truthy (get_cursor_handle (cursor ?p1))"
    by (simp add: sample_at_def get_cursor_handle_hidden truthy_def)
  have p2: "\<not> truthy (get_cursor_handle (cursor ?p2))"
    by (simp add: sample_at_def get_cursor_handle_showing truthy_def)
  have pre: "\<forall>u\<in>set [?p1, ?p2]. \<not> truthy (get_cursor_handle (cursor u))"
    using p1 p2 by simp
  have t: "get_cursor_handle (cursor ?t) = Some 10"
    by (simp add: sample_at_def get_cursor_handle_showing)
  have nz: "(10::int) \<noteq> 0"
    by simp
  have len: "replicate (length [?p1, ?p2]) Skipped @ [Initial 10] = [Skipped, Skipped, Initial 10]"
    by simp
  from first_valid_sample_initialises [OF s pre t nz]
  have run: "main_loop main_init ([?p1, ?p2] @ [?t])
       = (main_init\<lparr>last_h := Some 10\<rparr>, [Skipped, Skipped, Initial 10])"
    unfolding len .
  from s p1 p2 t run show ?thesis by blast
qed

text \<open>
  Without the condition that the sample is not 0 the statement fails: a showing cursor
  with the null handle is sampled as 0, which is not \<open>None\<close>, and the first such
  iteration leaves \<open>last_h = None\<close>.
\<close>

theorem first_sample_counterexample:
  "last_h main_init = None
   \<and> get_cursor_handle (cursor (sample_at 0.02 (showing 0) user32_partial)) = Some 0
   \<and> last_h (fst (tick main_init (sample_at 0.02 (showing 0) user32_partial))) = None
   \<and> last_h (fst (tick main_init (sample_at 0.02 (showing 0) user32_partial))) \<noteq> Some 0"
  by (simp add: tick_def sample_at_def get_cursor_handle_showing main_init_def)

text \<open>
  Claim C6: once \<open>last_h\<close> holds a handle it is never \<open>None\<close> again. No iteration
  takes a state with \<open>last_h\<close> set to one with \<open>last_h = None\<close>, and a run of \<open>main\<close>
  that has reached such a state stays in such states however it continues.
\<close>

theorem tracking_is_permanent:
  "(last_h s \<noteq> None \<longrightarrow> last_h (fst (tick s t)) \<noteq> None)
   \<and> (last_h (fst (main_loop main_init pre)) \<noteq> None
        \<longrightarrow> last_h (fst (main_loop main_init (pre @ post))) \<noteq> None)"
proof -
  have step: "last_h s \<noteq> None \<longrightarrow> last_h (fst (tick s t)) \<noteq> None"
    by (simp add: tick_last_h_kept)
  have run: "last_h (fst (main_loop main_init pre)) \<noteq> None
        \<longrightarrow> last_h (fst (main_loop main_init (pre @ post))) \<noteq> None"
    by (simp add: main_loop_append main_loop_last_h_kept)
  from step run show ?thesis by blast
qed

theorem tracking_is_permanent_witness:
  "last_h (fst (main_loop main_init
      [sample_at 0.02 (hidden 10) user32_partial, sample_at 0.04 (showing 10) user32_partial]))
     = Some 10
   \<and> last_h (fst (tick (fst (main_loop main_init
      [sample_at 0.02 (hidden 10) user32_partial, sample_at 0.04 (showing 10) user32_partial]))
        (sample_at 0.06 (hidden 0) user32_partial))) \<noteq> None
   \<and> last_h (fst (main_loop main_init
      ([sample_at 0.02 (hidden 10) user32_partial, sample_at 0.04 (showing 10) user32_partial]
        @ [sample_at 0.06 (hidden 0) user32_partial,
           sample_at 0.08 (showing 0) user32_partial]))) \<noteq> None"
proof -
  let ?pre = "[sample_at 0.02 (hidden 10) user32_partial,
               sample_at 0.04 (showing 10) user32_partial]"
  let ?post = "[sample_at 0.06 (hidden 0) user32_partial,
                sample_at 0.08 (showing 0) user32_partial]"
  have a: "last_h (fst (main_loop main_init ?pre)) = Some 10"
    by (simp add: tick_def get_cursor_handle_showing get_cursor_handle_hidden sample_at_def
        main_init_def)
  from tracking_is_permanent
         [of "fst (main_loop main_init ?pre)" "sample_at 0.06 (hidden 0) user32_partial"
             ?pre ?post] a
  show ?thesis by simp
qed

text \<open>
  Claim C7: an iteration whose sample is \<open>None\<close> leaves the whole state (\<open>last_h\<close> and
  \<open>cooldown_until\<close>) as it was and calls no reload. Hence, when two iterations sample
  the same handle and every iteration between them samples \<open>None\<close>, the state after
  the second is the state after the first, and none of these iterations reloads.
\<close>

theorem none_sample_keeps_state:
  "(get_cursor_handle (cursor t) = None \<longrightarrow> tick s t = (s, Skipped))
   \<and> ((\<forall>u\<in>set nones. get_cursor_handle (cursor u) = None)
        \<and> get_cursor_handle (cursor a) = Some h \<and> get_cursor_handle (cursor b) = Some h
      \<longrightarrow> main_loop (fst (tick s a)) nones
            = (fst (tick s a), replicate (length nones) Skipped)
          \<and> fst (main_loop (fst (tick s a)) (nones @ [b])) = fst (tick s a)
          \<and> filter is_Reloaded (snd (main_loop (fst (tick s a)) (nones @ [b]))) = [])"
proof -
  have one: "get_cursor_handle (cursor t) = None \<longrightarrow> tick s t = (s, Skipped)"
    by (simp add: tick_def)
  have two: "main_loop (fst (tick s a)) nones
            = (fst (tick s a), replicate (length nones) Skipped)
          \<and> fst (main_loop (fst (tick s a)) (nones @ [b])) = fst (tick s a)
          \<and> filter is_Reloaded (snd (main_loop (fst (tick s a)) (nones @ [b]))) = []"
    if nones: "\<forall>u\<in>set nones. get_cursor_handle (cursor u) = None"
      and a: "get_cursor_handle (cursor a) = Some h"
      and b: "get_cursor_handle (cursor b) = Some h"
  proof -
    let ?s1 = "fst (tick s a)"
    have "\<forall>u\<in>set nones. \<not> truthy (get_cursor_handle (cursor u))"
      using nones by (simp add: truthy_def)
    then have skip: "main_loop ?s1 nones = (?s1, replicate (length nones) Skipped)"
      by (rule main_loop_skips)
    have again: "tick ?s1 b = (?s1, Skipped) \<or> tick ?s1 b = (?s1, Unchanged)"
    proof (cases "h = 0")
      case True
      then show ?thesis using b by (simp add: tick_def)
    next
      case False
      have "last_h ?s1 = Some h"
        using a False by (auto simp: tick_def split: option.splits prod.splits)
      then have "tick ?s1 b = (?s1\<lparr>last_h := Some h\<rparr>, Unchanged)" "?s1\<lparr>last_h := Some h\<rparr> = ?s1"
        using b False by (simp_all add: tick_Unchanged)
      then show ?thesis by simp
    qed
    have "filter is_Reloaded (replicate (length nones) Skipped) = []"
      by simp
    with skip again show ?thesis
      by (auto simp: main_loop_append)
  qed
  from one two show ?thesis by blast
qed

theorem none_sample_keeps_state_witness:
  "get_cursor_handle (cursor (sample_at 0.3 (hidden 99) user32_partial)) = None
   \<and> tick (tracking 10 0.18) (sample_at 0.3 (hidden 99) user32_partial)
       = (tracking 10 0.18, Skipped)
   \<and> get_cursor_handle (cursor (sample_at 0.2 (showing 10) user32_partial)) = Some 10
   \<and> get_cursor_handle (cursor (sample_at 0.4 (showing 10) user32_partial)) = Some 10
   \<and> fst (tick main_init (sample_at 0.2 (showing 10) user32_partial)) = tracking 10 0
   \<and> main_loop (tracking 10 0)
        [sample_at 0.3 (hidden 99) user32_partial, sample_at 0.32 (hidden 0) user32_partial]
       = (tracking 10 0, [Skipped, Skipped])
   \<and> fst (main_loop (tracking 10 0)
        ([sample_at 0.3 (hidden 99) user32_partial, sample_at 0.32 (hidden 0) user32_partial]
          @ [sample_at 0.4 (showing 10) user32_partial])) = tracking 10 0
   \<and> filter is_Reloaded (snd (main_loop (tracking 10 0)
        ([sample_at 0.3 (hidden 99) user32_partial, sample_at 0.32 (hidden 0) user32_partial]
          @ [sample_at 0.4 (showing 10) user32_partial]))) = []"
proof -
  let ?n = "sample_at 0.3 (hidden 99) user32_partial"
  let ?nones = "[?n, sample_at 0.32 (hidden 0) user32_partial]"
  let ?a = "sample_at 0.2 (showing 10) user32_partial"
  let ?b = "sample_at 0.4 (showing 10) user32_partial"
  have n: "get_cursor_handle (cursor ?n) = None"
    by (simp add: sample_at_def get_cursor_handle_hidden)
  have nones: "\<forall>u\<in>set ?nones. get_cursor_handle (cursor u) = None"
    by (simp add: sample_at_def get_cursor_handle_hidden)
  have a: "get_cursor_handle (cursor ?a) = Some 10"
    by (simp add: sample_at_def get_cursor_handle_showing)
  have b: "get_cursor_handle (cursor ?b) = Some 10"
    by (simp add: sample_at_def get_cursor_handle_showing)
  have s1: "fst (tick main_init ?a) = tracking 10 0"
    by (simp add: tick_def sample_at_def get_cursor_handle_showing main_init_def tracking_def)
  have skip: "tick (tracking 10 0.18) ?n = (tracking 10 0.18, Skipped)"
    using none_sample_keeps_state [where t = ?n and s = "tracking 10 0.18"] n by blast
  have run: "main_loop (fst (tick main_init ?a)) ?nones
            = (fst (tick main_init ?a), replicate (length ?nones) Skipped)
          \<and> fst (main_loop (fst (tick main_init ?a)) (?nones @ [?b])) = fst (tick main_init ?a)
          \<and> filter is_Reloaded (snd (main_loop (fst (tick main_init ?a)) (?nones @ [?b]))) = []"
    using none_sample_keeps_state
            [where s = main_init and nones = ?nones and a = ?a and b = ?b and h = 10]
      nones a b by blast
  have len: "replicate (length ?nones) Skipped = [Skipped, Skipped]"
    by simp
  from run have run': "main_loop (tracking 10 0) ?nones = (tracking 10 0, [Skipped, Skipped])
          \<and> fst (main_loop (tracking 10 0) (?nones @ [?b])) = tracking 10 0
          \<and> filter is_Reloaded (snd (main_loop (tracking 10 0) (?nones @ [?b]))) = []"
    unfolding s1 len .
  from n skip a b s1 run' show ?thesis by blast
qed

text \<open>
  Claim C8, amended: in an iteration that starts with \<open>last_h\<close> set and samples a handle
  that is neither \<open>None\<close> nor 0 and differs from \<open>last_h\<close>, \<open>last_h\<close> is the sampled
  handle afterwards on both branches: the one that reloads (the clock has reached
  \<open>cooldown_until\<close>) and the one that absorbs the change (it has not).
\<close>

theorem change_updates_last_h:
  assumes "last_h s = Some l"
    and "get_cursor_handle (cursor t) = Some h"
    and "h \<noteq> 0"
    and "h \<noteq> l"
  shows "last_h (fst (tick s t)) = Some h
    \<and> (if cooldown_until s \<le> now t then is_Reloaded (snd (tick s t))
        else snd (tick s t) = Cooling)"
proof (cases "cooldown_until s \<le> now t")
  case True
  from tick_Reloaded [OF assms(2) assms(3) assms(1) assms(4) True] True show ?thesis
    by simp
next
  case False
  then have "now t < cooldown_until s" by simp
  from tick_Cooling [OF assms(2) assms(3) assms(1) assms(4) this] False show ?thesis
    by simp
qed

theorem change_updates_last_h_witness:
  "last_h (tracking 10 0) = Some 10
   \<and> get_cursor_handle (cursor (sample_at 0.08 (showing 99) user32_partial)) = Some 99
   \<and> last_h (fst (tick (tracking 10 0) (sample_at 0.08 (showing 99) user32_partial))) = Some 99
   \<and> is_Reloaded (snd (tick (tracking 10 0) (sample_at 0.08 (showing 99) user32_partial)))
   \<and> last_h (tracking 99 0.18) = Some 99
   \<and> get_cursor_handle (cursor (sample_at 0.10 (showing 10) user32_partial)) = Some 10
   \<and> last_h (fst (tick (tracking 99 0.18) (sample_at 0.10 (showing 10) user32_partial)))
       = Some 10
   \<and> snd (tick (tracking 99 0.18) (sample_at 0.10 (showing 10) user32_partial)) = Cooling"
proof -
  let ?t1 = "sample_at 0.08 (showing 99) user32_partial"
  let ?t2 = "sample_at 0.10 (showing 10) user32_partial"
  have s1: "last_h (tracking 10 0) = Some 10" and s2: "last_h (tracking 99 0.18) = Some 99"
    by (simp_all add: tracking_def)
  have h1: "get_cursor_handle (cursor ?t1) = Some 99"
    and h2: "get_cursor_handle (cursor ?t2) = Some 10"
    by (simp_all add: sample_at_def get_cursor_handle_showing)
  have late: "cooldown_until (tracking 10 0) \<le> now ?t1"
    and early: "\<not> cooldown_until (tracking 99 0.18) \<le> now ?t2"
    by (simp_all add: sample_at_def tracking_def)
  have a: "last_h (fst (tick (tracking 10 0) ?t1)) = Some 99
     \<and> is_Reloaded (snd (tick (tracking 10 0) ?t1))"
    using change_updates_last_h [OF s1 h1] late by simp
  have b: "last_h (fst (tick (tracking 99 0.18) ?t2)) = Some 10
     \<and> snd (tick (tracking 99 0.18) ?t2) = Cooling"
    using change_updates_last_h [OF s2 h2] early by simp
  from s1 s2 h1 h2 a b show ?thesis by blast
qed

text \<open>
  Without the condition that the sample is not 0 the statement fails: with \<open>last_h = 10\<close>,
  a sample of 0 is not \<open>None\<close> and differs from \<open>last_h\<close>, yet \<open>last_h\<close> stays 10.
\<close>

theorem change_updates_last_h_counterexample:
  "last_h (tracking 10 0) = Some 10
   \<and> get_cursor_handle (cursor (sample_at 0.5 (showing 0) user32_partial)) = Some 0
   \<and> (0::int) \<noteq> 10
   \<and> last_h (fst (tick (tracking 10 0) (sample_at 0.5 (showing 0) user32_partial))) = Some 10
   \<and> last_h (fst (tick (tracking 10 0) (sample_at 0.5 (showing 0) user32_partial))) \<noteq> Some 0"
  by (simp add: tick_def sample_at_def get_cursor_handle_showing tracking_def)

text \<open>
  Claim C9: when \<open>GetCursorInfo\<close> succeeds and reports the cursor as showing with a null
  handle, \<open>get_cursor_handle\<close> returns the integer 0, not \<open>None\<close>; the loop treats a
  sample of 0 exactly as it treats \<open>None\<close>: the iteration is skipped and the state is
  unchanged; so in every state that a run of \<open>main\<close> reaches, \<open>last_h\<close> is never 0.
\<close>

theorem null_handle_is_skipped:
  "(GetCursorInfo_ret ci \<noteq> 0 \<and> flags ci AND CURSOR_SHOWING \<noteq> 0 \<and> hCursor ci = 0
      \<longrightarrow> get_cursor_handle ci = Some 0)
   \<and> (get_cursor_handle (cursor t) = Some 0 \<and> get_cursor_handle (cursor u) = None
      \<longrightarrow> tick s t = (s, Skipped) \<and> tick s t = tick s u)
   \<and> last_h (fst (main_loop main_init ts)) \<noteq> Some 0"
proof -
  have one: "GetCursorInfo_ret ci \<noteq> 0 \<and> flags ci AND CURSOR_SHOWING \<noteq> 0 \<and> hCursor ci = 0
      \<longrightarrow> get_cursor_handle ci = Some 0"
    by (simp add: get_cursor_handle_def c_void_p_value_def or_zero_def)
  have two: "get_cursor_handle (cursor t) = Some 0 \<and> get_cursor_handle (cursor u) = None
      \<longrightarrow> tick s t = (s, Skipped) \<and> tick s t = tick s u"
    by (simp add: tick_def)
  have "last_h main_init \<noteq> Some 0"
    by (simp add: main_init_def)
  then have three: "last_h (fst (main_loop main_init ts)) \<noteq> Some 0"
    by (rule main_loop_last_h_nonzero)
  from one two three show ?thesis by blast
qed

theorem null_handle_is_skipped_witness:
  "GetCursorInfo_ret (showing 0) \<noteq> 0 \<and> flags (showing 0) AND CURSOR_SHOWING \<noteq> 0
   \<and> hCursor (showing 0) = 0
   \<and> get_cursor_handle (showing 0) = Some 0
   \<and> get_cursor_handle (hidden 7) = None
   \<and> tick (tracking 10 0) (sample_at 0.5 (showing 0) user32_partial) = (tracking 10 0, Skipped)
   \<and> tick (tracking 10 0) (sample_at 0.5 (showing 0) user32_partial)
       = tick (tracking 10 0) (sample_at 0.5 (hidden 7) user32_partial)
   \<and> last_h (fst (main_loop main_init
        [sample_at 0.02 (showing 0) user32_partial, sample_at 0.04 (showing 10) user32_partial,
         sample_at 0.06 (showing 0) user32_partial])) \<noteq> Some 0"
proof -
  have q: "GetCursorInfo_ret (showing 0) \<noteq> 0 \<and> flags (showing 0) AND CURSOR_SHOWING \<noteq> 0
      \<and> hCursor (showing 0) = 0"
    by (simp add: showing_def CURSOR_SHOWING_def)
  have a: "get_cursor_handle (cursor (sample_at 0.5 (showing 0) user32_partial)) = Some 0"
    by (simp add: sample_at_def get_cursor_handle_showing)
  have b: "get_cursor_handle (cursor (sample_at 0.5 (hidden 7) user32_partial)) = None"
    by (simp add: sample_at_def get_cursor_handle_hidden)
  from null_handle_is_skipped
         [of "showing 0" "sample_at 0.5 (showing 0) user32_partial"
             "sample_at 0.5 (hidden 7) user32_partial" "tracking 10 0"
             "[sample_at 0.02 (showing 0) user32_partial,
               sample_at 0.04 (showing 10) user32_partial,
               sample_at 0.06 (showing 0) user32_partial]"]
    q a b
  have r: "get_cursor_handle (showing 0) = Some 0
    \<and> tick (tracking 10 0) (sample_at 0.5 (showing 0) user32_partial) = (tracking 10 0, Skipped)
    \<and> tick (tracking 10 0) (sample_at 0.5 (showing 0) user32_partial)
       = tick (tracking 10 0) (sample_at 0.5 (hidden 7) user32_partial)
    \<and> last_h (fst (main_loop main_init
        [sample_at 0.02 (showing 0) user32_partial, sample_at 0.04 (showing 10) user32_partial,
         sample_at 0.06 (showing 0) user32_partial])) \<noteq> Some 0"
    by blast
  have h: "get_cursor_handle (hidden 7) = None"
    by (rule get_cursor_handle_hidden)
  from r q h show ?thesis by blast
qed

text \<open>
  Claim C10: \<open>cooldown_until\<close> changes only in an iteration that calls
  \<open>force_reload_cursors\<close>. An iteration on any other path (skipped sample, first sample,
  unchanged handle, change inside the cooldown) leaves it as it was; in particular an
  absorbed change does not extend the cooldown, and a run without a reload ends with the
  deadline it started with.
\<close>

theorem deadline_moves_only_on_reload:
  "(\<not> is_Reloaded (snd (tick s t)) \<longrightarrow> cooldown_until (fst (tick s t)) = cooldown_until s)
   \<and> (snd (tick s t) = Cooling \<longrightarrow> cooldown_until (fst (tick s t)) = cooldown_until s)
   \<and> (filter is_Reloaded (snd (main_loop s ts)) = []
        \<longrightarrow> cooldown_until (fst (main_loop s ts)) = cooldown_until s)"
proof -
  have one: "\<not> is_Reloaded (snd (tick s t)) \<longrightarrow> cooldown_until (fst (tick s t)) = cooldown_until s"
    by (simp add: tick_deadline_kept)
  then have absorbed:
    "snd (tick s t) = Cooling \<longrightarrow> cooldown_until (fst (tick s t)) = cooldown_until s"
    by auto
  have run: "filter is_Reloaded (snd (main_loop s ts)) = []
        \<longrightarrow> cooldown_until (fst (main_loop s ts)) = cooldown_until s"
    by (simp add: main_loop_deadline_kept)
  from one absorbed run show ?thesis by blast
qed

theorem deadline_moves_only_on_reload_witness:
  "snd (tick (tracking 99 0.18) (sample_at 0.10 (showing 10) user32_partial)) = Cooling
   \<and> cooldown_until (fst (tick (tracking 99 0.18) (sample_at 0.10 (showing 10) user32_partial)))
       = 0.18
   \<and> snd (main_loop (tracking 99 0.18)
        [sample_at 0.10 (showing 10) user32_partial, sample_at 0.12 (hidden 7) user32_partial,
         sample_at 0.14 (showing 10) user32_partial])
       = [Cooling, Skipped, Unchanged]
   \<and> cooldown_until (fst (main_loop (tracking 99 0.18)
        [sample_at 0.10 (showing 10) user32_partial, sample_at 0.12 (hidden 7) user32_partial,
         sample_at 0.14 (showing 10) user32_partial]))
       = 0.18"
proof -
  let ?s = "tracking 99 0.18"
  let ?t = "sample_at 0.10 (showing 10) user32_partial"
  let ?ts = "[?t, sample_at 0.12 (hidden 7) user32_partial,
         sample_at 0.14 (showing 10) user32_partial]"
  have a: "snd (tick ?s ?t) = Cooling"
    by (simp add: tick_def get_cursor_handle_showing sample_at_def tracking_def)
  have b: "snd (main_loop ?s ?ts) = [Cooling, Skipped, Unchanged]"
    by (simp add: tick_def get_cursor_handle_showing get_cursor_handle_hidden sample_at_def
        tracking_def)
  have c: "cooldown_until ?s = 0.18"
    by (simp add: tracking_def)
  from deadline_moves_only_on_reload [of ?s ?t ?ts] a b c show ?thesis
    by simp
qed

end
